theory Spec2Isabelle
  imports Main "HOL-Library.Word"
begin

section \<open>Python values used by the scanner\<close>

text \<open>
  Exceptions that can travel through the program. \<open>except Exception\<close> catches the first
  kind (carrying \<open>str(e)\<close>) and lets the second pass: \<open>KeyboardInterrupt\<close> derives from
  \<open>BaseException\<close>.
\<close>

datatype exc = Exception string | KeyboardInterrupt

type_synonym byte = "8 word"

text \<open>\<open>x or d\<close> on an optional string: \<open>None\<close> and the empty string are both falsy.\<close>

definition py_or :: "string option \<Rightarrow> string \<Rightarrow> string" where
  "py_or x d = (case x of None \<Rightarrow> d | Some s \<Rightarrow> if s = [] then d else s)"

definition digit_char :: "nat \<Rightarrow> char" where
  "digit_char n = ''0123456789abcdef'' ! (n mod 16)"

fun str_nat :: "nat \<Rightarrow> string" where
  "str_nat n = (if n < 10 then [digit_char n] else str_nat (n div 10) @ [digit_char (n mod 10)])"

declare str_nat.simps [simp del]

definition str_int :: "int \<Rightarrow> string" where
  "str_int i = (if i < 0 then CHR ''-'' # str_nat (nat (- i)) else str_nat (nat i))"

definition str_bool :: "bool \<Rightarrow> string" where
  "str_bool b = (if b then ''True'' else ''False'')"

definition str_opt_int :: "int option \<Rightarrow> string" where
  "str_opt_int x = (case x of None \<Rightarrow> ''None'' | Some i \<Rightarrow> str_int i)"

text \<open>\<open>bytes.hex()\<close>: two lower-case hexadecimal digits for each byte.\<close>

definition bytes_hex :: "byte list \<Rightarrow> string" where
  "bytes_hex bs = concat (map (\<lambda>b. [digit_char (unat b div 16), digit_char (unat b mod 16)]) bs)"

text \<open>
  \<open>', '.join(xs)\<close> and the \<open>repr\<close> of a list of strings. The strings rendered this way are
  UUIDs and property names, which hold no quote and no character that \<open>repr\<close> escapes.
\<close>

fun py_join :: "string \<Rightarrow> string list \<Rightarrow> string" where
  "py_join sep [] = []"
| "py_join sep [x] = x"
| "py_join sep (x # y # xs) = x @ sep @ py_join sep (y # xs)"

definition repr_str_list :: "string list \<Rightarrow> string" where
  "repr_str_list xs = ''['' @ py_join '', '' (map (\<lambda>s. [CHR 0x27] @ s @ [CHR 0x27]) xs) @ '']''"

text \<open>
  \<open>str.lower()\<close> and \<open>str.upper()\<close>. Text is held as its UTF-8 bytes. On ASCII text the
  two methods change the letters \<open>A\<close> to \<open>Z\<close> and \<open>a\<close> to \<open>z\<close> and nothing else. Beyond ASCII
  they follow the case mappings of Unicode, which can change the length of a string; the
  model holds one of them: \<open>upper()\<close> turns U+FB00, the ligature of two small letters f
  (the bytes EF AC 80), into the two letters \<open>FF\<close>, and \<open>lower()\<close> leaves it as it is. All
  other text beyond ASCII is outside the model, and what is proved below for every
  address is proved for ASCII addresses, as the addresses of devices are (hexadecimal
  digits with \<open>:\<close> or \<open>-\<close> separators).
\<close>

definition lower_char :: "char \<Rightarrow> char" where
  "lower_char c = (let n = (of_char c :: nat) in if 65 \<le> n \<and> n \<le> 90 then char_of (n + 32) else c)"


definition py_lower :: "string \<Rightarrow> string" where
  "py_lower s = map lower_char s"



text \<open>Characters of the messages that are not printable ASCII, as their UTF-8 bytes.\<close>

definition nl :: string where
  "nl = [CHR 0x0A]"

definition check_mark :: string where
  "check_mark = [CHR 0xE2, CHR 0x9C, CHR 0x93]"

definition cross_mark :: string where
  "cross_mark = [CHR 0xE2, CHR 0x9C, CHR 0x97]"

text \<open>
  A \<open>dict\<close> keeps its keys in insertion order, and assigning to a key that is present
  replaces the value where it stands: an association list with distinct keys.
\<close>

fun dict_set :: "('k \<times> 'v) list \<Rightarrow> 'k \<Rightarrow> 'v \<Rightarrow> ('k \<times> 'v) list" where
  "dict_set [] k v = [(k, v)]"
| "dict_set ((k', v') # d) k v = (if k' = k then (k', v) # d else (k', v') # dict_set d k v)"

section \<open>What the radio stack hands to the program\<close>

record ble_device =
  address :: string
  name :: "string option"
  details :: string

record advertisement_data =
  rssi :: int
  local_name :: "string option"
  tx_power :: "int option"
  service_uuids :: "string list"
  manufacturer_data :: "(int \<times> byte list) list"
  service_data :: "(string \<times> byte list) list"

record descriptor =
  dsc_uuid :: string
  dsc_description :: string

record characteristic =
  chr_uuid :: string
  chr_description :: string
  chr_properties :: "string list"
  chr_descriptors :: "descriptor list"

record service =
  svc_uuid :: string
  svc_description :: string
  svc_characteristics :: "characteristic list"

text \<open>
  A connected client. Reading \<open>client.services\<close> is where an enumeration fault shows: it
  either yields the services in the order of the transport stack or raises.
  \<open>services_len\<close> is what \<open>len(client.services)\<close> does once the collection was read: the
  collection class of the \<open>bleak\<close> library defines no \<open>__len__\<close>, and then the call raises
  \<open>TypeError\<close>.
\<close>

record client =
  is_connected :: bool
  services :: "exc + service list"
  services_len :: "exc + nat"

text \<open>
  The environment of one run: for each call into the radio stack, what it does.
  \<open>advertisements t\<close> are the advertisement events delivered, in arrival order, while the
  program waits \<open>t\<close> seconds with the scanner on.
\<close>

record radio =
  start_outcome :: "exc option"
  sleep_outcome :: "exc option"
  stop_outcome :: "exc option"
  advertisements :: "int \<Rightarrow> (ble_device \<times> advertisement_data) list"
  discover_outcome :: "exc + ble_device list"
  connect_outcome :: "string \<Rightarrow> exc + client"

section \<open>Effects\<close>

text \<open>
  What a run does, in order: a line printed to standard output, the scanner turned on and
  off, a completed wait of so many seconds, a connection opened to an address and the
  same connection closed.
\<close>

datatype event =
  Print string
| ScannerStart
| Sleep int
| ScannerStop
| Discover
| Connect string
| Disconnect string

text \<open>A computation: the events so far and the exception that ended it, if one did.\<close>

type_synonym run = "event list \<times> exc option"

definition then_do :: "run \<Rightarrow> run \<Rightarrow> run" where
  "then_do a b = (case a of (tr, None) \<Rightarrow> (tr @ fst b, snd b) | (tr, Some e) \<Rightarrow> (tr, Some e))"

definition prints :: "string list \<Rightarrow> run" where
  "prints ls = (map Print ls, None)"

text \<open>\<open>try: body except Exception as e: handler\<close>, for a handler that only prints.\<close>

definition try_except_Exception :: "run \<Rightarrow> (string \<Rightarrow> string list) \<Rightarrow> run" where
  "try_except_Exception body handler =
     (case body of
        (tr, Some (Exception msg)) \<Rightarrow> (tr @ map Print (handler msg), None)
      | (tr, r) \<Rightarrow> (tr, r))"

definition scanner_start :: "radio \<Rightarrow> run" where
  "scanner_start env = (case start_outcome env of None \<Rightarrow> ([ScannerStart], None) | Some e \<Rightarrow> ([], Some e))"

definition sleep :: "radio \<Rightarrow> int \<Rightarrow> run" where
  "sleep env t = (case sleep_outcome env of None \<Rightarrow> ([Sleep t], None) | Some e \<Rightarrow> ([], Some e))"

definition scanner_stop :: "radio \<Rightarrow> run" where
  "scanner_stop env = (case stop_outcome env of None \<Rightarrow> ([ScannerStop], None) | Some e \<Rightarrow> ([], Some e))"

text \<open>
  \<open>async with BleakClient(addr) as client: body\<close>. Entering connects; when that raises
  nothing was opened and the body does not run. Once the connection is open, leaving
  the block disconnects, whether the body finished or raised, and the body's exception
  then continues outwards.
\<close>

definition async_with_client :: "radio \<Rightarrow> string \<Rightarrow> (client \<Rightarrow> run) \<Rightarrow> run" where
  "async_with_client env addr body =
     (case connect_outcome env addr of
        Inl e \<Rightarrow> ([], Some e)
      | Inr c \<Rightarrow> (Connect addr # fst (body c) @ [Disconnect addr], snd (body c)))"

section \<open>ble_scanner.py\<close>

subsection \<open>get_device_info: the detail of one device\<close>

text \<open>
  The callback of \<open>get_device_info\<close> keeps the last event whose address equals the wanted
  one once both are lower-cased. Its two \<open>nonlocal\<close> variables are the state.
\<close>

definition get_device_info_detection_callback ::
  "string \<Rightarrow> ble_device option \<times> advertisement_data option \<Rightarrow> ble_device \<Rightarrow> advertisement_data
     \<Rightarrow> ble_device option \<times> advertisement_data option" where
  "get_device_info_detection_callback addr st device ad =
     (if py_lower (address device) = py_lower addr then (Some device, Some ad) else st)"

definition find_device ::
  "string \<Rightarrow> (ble_device \<times> advertisement_data) list \<Rightarrow> ble_device option \<times> advertisement_data option" where
  "find_device addr evs =
     foldl (\<lambda>st (device, ad). get_device_info_detection_callback addr st device ad) (None, None) evs"

definition advertisement_lines :: "advertisement_data \<Rightarrow> string list" where
  "advertisement_lines ad =
     [''RSSI: '' @ str_int (rssi ad) @ '' dBm'',
      ''Local Name: '' @ py_or (local_name ad) ''Not provided'',
      ''TX Power: '' @ str_opt_int (tx_power ad),
      ''Service UUIDs: '' @
        (if service_uuids ad \<noteq> [] then repr_str_list (service_uuids ad) else ''None'')]
     @ (if manufacturer_data ad \<noteq> []
        then ''Manufacturer Data:'' #
          map (\<lambda>(company_id, data). ''  Company ID '' @ str_int company_id @ '': '' @ bytes_hex data)
            (manufacturer_data ad)
        else [''Manufacturer Data: None''])
     @ (if service_data ad \<noteq> []
        then ''Service Data:'' #
          map (\<lambda>(service_uuid, data). ''  Service '' @ service_uuid @ '': '' @ bytes_hex data)
            (service_data ad)
        else [''Service Data: None''])"

definition descriptor_lines :: "descriptor \<Rightarrow> string list" where
  "descriptor_lines d =
     [''    Descriptor: '' @ dsc_uuid d, ''      Description: '' @ dsc_description d]"

definition characteristic_lines :: "characteristic \<Rightarrow> string list" where
  "characteristic_lines c =
     [''  Characteristic: '' @ chr_uuid c,
      ''    Description: '' @ chr_description c,
      ''    Properties: '' @ repr_str_list (chr_properties c)]
     @ concat (map descriptor_lines (chr_descriptors c))"

definition service_lines :: "service \<Rightarrow> string list" where
  "service_lines s =
     [nl @ ''Service: '' @ svc_uuid s, ''  Description: '' @ svc_description s]
     @ concat (map characteristic_lines (svc_characteristics s))"

text \<open>The body of the \<open>async with\<close> block of \<open>get_device_info\<close>.\<close>

definition get_device_info_session :: "client \<Rightarrow> run" where
  "get_device_info_session c =
     (if is_connected c then
        then_do
          (prints [check_mark @ '' Successfully connected!'',
                   nl @ ''=== SERVICES AND CHARACTERISTICS ===''])
          (case services c of
             Inl e \<Rightarrow> ([], Some e)
           | Inr svcs \<Rightarrow> prints (concat (map service_lines svcs)))
      else prints [cross_mark @ '' Failed to connect''])"

text \<open>The outer \<open>try\<close> block of \<open>get_device_info\<close>: scan for ten seconds, then report.\<close>

definition get_device_info_try :: "radio \<Rightarrow> string \<Rightarrow> run" where
  "get_device_info_try env addr =
     then_do (prints [''Scanning for device...''])
    (then_do (scanner_start env)
    (then_do (sleep env 10)
    (then_do (scanner_stop env)
       (case find_device addr (advertisements env 10) of
          (None, advertisement_info) \<Rightarrow>
            prints [''Device with address '' @ addr @ '' not found during scan.'']
        | (Some device_found, advertisement_info) \<Rightarrow>
            then_do
              (prints
                ([nl @ ''=== BASIC DEVICE INFORMATION ==='',
                  ''Name: '' @ py_or (name device_found) ''Unknown'',
                  ''Address: '' @ address device_found,
                  ''Details: '' @ details device_found,
                  nl @ ''=== ADVERTISEMENT DATA ===''] @
                 (case advertisement_info of None \<Rightarrow> [] | Some ad \<Rightarrow> advertisement_lines ad) @
                 [nl @ ''=== ATTEMPTING CONNECTION ==='']))
              (try_except_Exception (async_with_client env addr get_device_info_session)
                 (\<lambda>connect_error.
                    [cross_mark @ '' Connection failed: '' @ connect_error,
                     ''  This is normal for many BLE devices that don't accept connections'']))))))"

definition get_device_info :: "radio \<Rightarrow> string \<Rightarrow> run" where
  "get_device_info env addr =
     then_do (prints [''Getting detailed information for device: '' @ addr])
       (try_except_Exception (get_device_info_try env addr)
          (\<lambda>e. [''Error getting device information: '' @ e]))"

subsection \<open>scan_ble_devices: the bulk scan and its report\<close>

text \<open>The value stored for each address in \<open>discovered_devices\<close>.\<close>

record entry =
  entry_device :: ble_device
  entry_rssi :: int
  entry_name :: string
  entry_advertisement_data :: advertisement_data

definition detection_callback ::
  "(string \<times> entry) list \<Rightarrow> ble_device \<Rightarrow> advertisement_data \<Rightarrow> (string \<times> entry) list" where
  "detection_callback discovered_devices device ad =
     dict_set discovered_devices (address device)
       \<lparr>entry_device = device,
        entry_rssi = rssi ad,
        entry_name = py_or (name device) ''Unknown'',
        entry_advertisement_data = ad\<rparr>"

definition collect :: "(ble_device \<times> advertisement_data) list \<Rightarrow> (string \<times> entry) list" where
  "collect evs = foldl (\<lambda>d (device, ad). detection_callback d device ad) [] evs"

text \<open>Line 116: the comprehension that keeps the entries above the threshold.\<close>

definition filter_devices :: "int \<Rightarrow> (string \<times> entry) list \<Rightarrow> (string \<times> entry) list" where
  "filter_devices dbm_max discovered_devices =
     filter (\<lambda>(addr, info). entry_rssi info > dbm_max) discovered_devices"

definition device_lines :: "string \<times> entry \<Rightarrow> string list" where
  "device_lines = (\<lambda>(addr, info).
     [''Name: '' @ entry_name info,
      ''Address: '' @ addr,
      ''RSSI: '' @ str_int (entry_rssi info) @ '' dBm'']
     @ (if service_uuids (entry_advertisement_data info) \<noteq> []
        then [''Services: '' @ repr_str_list (service_uuids (entry_advertisement_data info))]
        else [])
     @ (if manufacturer_data (entry_advertisement_data info) \<noteq> []
        then [''Manufacturer: '' @
                py_join '', ''
                  (map (\<lambda>(company_id, data). ''ID:'' @ str_int company_id)
                     (manufacturer_data (entry_advertisement_data info)))]
        else [])
     @ [replicate 40 CHR ''-''])"

text \<open>Lines 112 to 146: what is printed once the scan has stopped.\<close>

definition scan_report :: "int \<Rightarrow> (string \<times> entry) list \<Rightarrow> string list" where
  "scan_report dbm_max discovered_devices =
     (if discovered_devices = [] then [''No BLE devices found.'']
      else if filter_devices dbm_max discovered_devices = [] then
        [''No BLE devices found with RSSI > '' @ str_int dbm_max @ '' dBm (found '' @
           str_nat (length discovered_devices) @ '' total, all filtered out).'']
      else
        [nl @ ''Found '' @ str_nat (length (filter_devices dbm_max discovered_devices)) @
           '' device(s):'',
         replicate 80 CHR ''-'']
        @ concat (map device_lines (filter_devices dbm_max discovered_devices))
        @ [''Scan complete.''])"

definition scan_ble_devices :: "radio \<Rightarrow> int \<Rightarrow> int \<Rightarrow> run" where
  "scan_ble_devices env scan_time dbm_max =
     then_do (prints [''Starting BLE scan for '' @ str_int scan_time @ '' seconds...''])
    (then_do (scanner_start env)
    (then_do (sleep env scan_time)
    (then_do (scanner_stop env)
       (prints (scan_report dbm_max (collect (advertisements env scan_time)))))))"

subsection \<open>main: the command line and the exit status\<close>

text \<open>
  The command line as \<open>argparse\<close> sees it once the option strings are recognised: the
  occurrences, in order, of the three options that \<open>main\<close> declares, each with its
  converted value (\<open>type=str\<close>, \<open>type=int\<close>, \<open>type=int\<close>).
\<close>

datatype opt = OptAddress string | OptScanTime int | OptDbmMax int

datatype action = AddressAction | ScanTimeAction | DbmMaxAction

fun opt_action :: "opt \<Rightarrow> action" where
  "opt_action (OptAddress a) = AddressAction"
| "opt_action (OptScanTime t) = ScanTimeAction"
| "opt_action (OptDbmMax d) = DbmMaxAction"

text \<open>The namespace \<open>args\<close>, and its defaults: no address, 5 seconds, -80 dBm.\<close>

record args =
  args_address :: "string option"
  args_scan_time :: int
  args_dbm_max :: int

definition default_args :: args where
  "default_args = \<lparr>args_address = None, args_scan_time = 5, args_dbm_max = - 80\<rparr>"

fun store :: "args \<Rightarrow> opt \<Rightarrow> args" where
  "store ns (OptAddress a) = ns\<lparr>args_address := Some a\<rparr>"
| "store ns (OptScanTime t) = ns\<lparr>args_scan_time := t\<rparr>"
| "store ns (OptDbmMax d) = ns\<lparr>args_dbm_max := d\<rparr>"

text \<open>
  All three options are added to one group made by \<open>add_mutually_exclusive_group()\<close>
  (lines 162 to 179). \<open>argparse\<close> stores the value of each occurrence, the last one of an
  option winning, and rejects an occurrence that it counts as present when an occurrence
  of another option of the group was counted before it; the error, the second option
  \<open>not allowed with\<close> the first, ends the process with status 2.

  Which occurrences count is the library's matter, so it is a parameter \<open>counts\<close> of the
  model. The library of Python 3.11 counts an occurrence unless its converted value is
  the very object of the option's default (\<open>argument_values is not action.default\<close>); in
  CPython that is so for \<open>--scan-time 5\<close>, whose value and default are the one shared
  small integer, and for no other occurrence of these three options:
  \<open>counts_unless_default\<close> below. \<open>counts_always\<close> is the test of a library that counts
  every occurrence of an option.
\<close>

datatype argparse_error = NotAllowedWith action action

fun parse_known_args ::
  "(opt \<Rightarrow> bool) \<Rightarrow> action list \<Rightarrow> args \<Rightarrow> opt list \<Rightarrow> argparse_error + args" where
  "parse_known_args counts seen ns [] = Inr ns"
| "parse_known_args counts seen ns (x # xs) =
     (if counts x then
        (case find (\<lambda>a. a \<noteq> opt_action x) seen of
           Some a \<Rightarrow> Inl (NotAllowedWith (opt_action x) a)
         | None \<Rightarrow> parse_known_args counts (seen @ [opt_action x]) (store ns x) xs)
      else parse_known_args counts seen (store ns x) xs)"

definition parse_args :: "(opt \<Rightarrow> bool) \<Rightarrow> opt list \<Rightarrow> argparse_error + args" where
  "parse_args counts argv = parse_known_args counts [] default_args argv"

definition counts_unless_default :: "opt \<Rightarrow> bool" where
  "counts_unless_default x = (x \<noteq> OptScanTime 5)"

definition counts_always :: "opt \<Rightarrow> bool" where
  "counts_always x = True"

text \<open>
  Lines 183 to 195. Falling off the end of \<open>main\<close> is exit status 0; \<open>parse_args\<close> stands
  before the \<open>try\<close>, so its error leaves with status 2 and nothing on standard output.
\<close>

definition exit_status :: "run \<Rightarrow> event list \<times> int" where
  "exit_status r =
     (case r of
        (tr, None) \<Rightarrow> (tr, 0)
      | (tr, Some KeyboardInterrupt) \<Rightarrow> (tr @ [Print (nl @ ''Scan interrupted by user'')], 0)
      | (tr, Some (Exception e)) \<Rightarrow> (tr @ [Print (''Error: '' @ e)], 1))"

definition dispatch :: "radio \<Rightarrow> args \<Rightarrow> run" where
  "dispatch env a =
     (case args_address a of
        None \<Rightarrow> scan_ble_devices env (args_scan_time a) (args_dbm_max a)
      | Some addr \<Rightarrow>
          if addr \<noteq> [] then get_device_info env addr
          else scan_ble_devices env (args_scan_time a) (args_dbm_max a))"

definition main :: "(opt \<Rightarrow> bool) \<Rightarrow> radio \<Rightarrow> opt list \<Rightarrow> event list \<times> int" where
  "main counts env argv =
     (case parse_args counts argv of
        Inl err \<Rightarrow> ([], 2)
      | Inr a \<Rightarrow> exit_status (dispatch env a))"

section \<open>disconnect_ble.py\<close>

text \<open>The body of the \<open>async with\<close> block of \<open>scan_and_disconnect_devices\<close>.\<close>

definition disconnect_characteristic_line :: "characteristic \<Rightarrow> string" where
  "disconnect_characteristic_line c =
     ''      Characteristic: '' @ chr_uuid c @ '' (Properties: '' @
        repr_str_list (chr_properties c) @ '')''"

definition disconnect_service_lines :: "service \<Rightarrow> string list" where
  "disconnect_service_lines s =
     (''    Service: '' @ svc_uuid s) # map disconnect_characteristic_line (svc_characteristics s)"

definition disconnect_session :: "string \<Rightarrow> client \<Rightarrow> run" where
  "disconnect_session addr c =
     then_do (prints [''  '' @ check_mark @ '' Connected: '' @ str_bool (is_connected c)])
       (case services c of
          Inl e \<Rightarrow> ([], Some e)
        | Inr svcs \<Rightarrow>
            (case services_len c of
               Inl e \<Rightarrow> ([], Some e)
             | Inr n \<Rightarrow>
                 prints
                   ([''  Services found: '' @ str_nat n] @
                    concat (map disconnect_service_lines svcs) @
                    [''  '' @ check_mark @ '' Disconnected from '' @ addr])))"

text \<open>One turn of the \<open>for device in devices\<close> loop, lines 18 to 38.\<close>

definition process_device :: "radio \<Rightarrow> ble_device \<Rightarrow> run" where
  "process_device env device =
     then_do
       (prints [''Device: '' @ py_or (name device) ''Unknown'' @ '' ('' @ address device @ '')''])
    (then_do
       (try_except_Exception
          (async_with_client env (address device) (disconnect_session (address device)))
          (\<lambda>e. [''  '' @ cross_mark @ '' Skipping (device not available or cannot connect): '' @ e]))
       (prints ['''']))"

fun process_devices :: "radio \<Rightarrow> ble_device list \<Rightarrow> run" where
  "process_devices env [] = ([], None)"
| "process_devices env (device # devices) =
     then_do (process_device env device) (process_devices env devices)"

definition scan_and_disconnect_devices :: "radio \<Rightarrow> run" where
  "scan_and_disconnect_devices env =
     then_do (prints [''Scanning for BLE devices...''])
       (case discover_outcome env of
          Inl e \<Rightarrow> ([], Some e)
        | Inr devices \<Rightarrow>
            then_do ([Discover], None)
              (if devices = [] then prints [''No BLE devices found'']
               else
                 then_do
                   (prints [nl @ ''Found '' @ str_nat (length devices) @ '' device(s):'' @ nl])
                   (process_devices env devices)))"

section \<open>Observations on a run\<close>

text \<open>The waits of a run, in order.\<close>

fun sleep_durations :: "event list \<Rightarrow> int list" where
  "sleep_durations [] = []"
| "sleep_durations (Sleep t # tr) = t # sleep_durations tr"
| "sleep_durations (e # tr) = sleep_durations tr"

text \<open>
  A trace leaves no connection open: read from the left with the connection that is open
  at that point, a connection is only opened when none is, while one is open the program
  does nothing but print until it closes that same connection, and at the end none is
  open.
\<close>

fun connections_closed :: "string option \<Rightarrow> event list \<Rightarrow> bool" where
  "connections_closed opened [] = (opened = None)"
| "connections_closed opened (Connect a # tr) = (opened = None \<and> connections_closed (Some a) tr)"
| "connections_closed opened (Disconnect a # tr) = (opened = Some a \<and> connections_closed None tr)"
| "connections_closed opened (Print s # tr) = connections_closed opened tr"
| "connections_closed opened (e # tr) = (opened = None \<and> connections_closed None tr)"

text \<open>
  The fault a device meets in a session of \<open>scan_and_disconnect_devices\<close>, if it meets
  one: while connecting, while its services are read, or in \<open>len(client.services)\<close>.
\<close>

definition session_fault :: "radio \<Rightarrow> string \<Rightarrow> exc option" where
  "session_fault env addr =
     (case connect_outcome env addr of
        Inl e \<Rightarrow> Some e
      | Inr c \<Rightarrow>
          (case services c of
             Inl e \<Rightarrow> Some e
           | Inr svcs \<Rightarrow> (case services_len c of Inl e \<Rightarrow> Some e | Inr n \<Rightarrow> None)))"

text \<open>The first fault of the scanner calls of a scan: start, wait, stop.\<close>

definition scan_fault :: "radio \<Rightarrow> exc option" where
  "scan_fault env =
     (case start_outcome env of
        Some e \<Rightarrow> Some e
      | None \<Rightarrow> (case sleep_outcome env of Some e \<Rightarrow> Some e | None \<Rightarrow> stop_outcome env))"

text \<open>The mode \<open>main\<close> takes: the detail of one device when \<open>args.address\<close> is truthy.\<close>

definition detail_mode :: "args \<Rightarrow> bool" where
  "detail_mode a = (case args_address a of None \<Rightarrow> False | Some addr \<Rightarrow> addr \<noteq> [])"

section \<open>Example environments\<close>

definition silent_advertisement :: "int \<Rightarrow> advertisement_data" where
  "silent_advertisement r =
     \<lparr>rssi = r, local_name = None, tx_power = None, service_uuids = [],
      manufacturer_data = [], service_data = []\<rparr>"

definition refusing_device :: ble_device where
  "refusing_device = \<lparr>address = ''AA:BB:CC:DD:EE:01'', name = None, details = ''hci0''\<rparr>"

definition accepting_device :: ble_device where
  "accepting_device =
     \<lparr>address = ''AA:BB:CC:DD:EE:02'', name = Some ''Thermometer'', details = ''hci0''\<rparr>"

definition faulty_device :: ble_device where
  "faulty_device = \<lparr>address = ''AA:BB:CC:DD:EE:03'', name = Some ''Lamp'', details = ''hci0''\<rparr>"

definition no_len :: "exc + nat" where
  "no_len = Inl (Exception ''object of type 'BleakGATTServiceCollection' has no len()'')"

definition accepting_client :: client where
  "accepting_client =
     \<lparr>is_connected = True,
      services = Inr [\<lparr>svc_uuid = ''180a'', svc_description = ''Device Information'',
                       svc_characteristics = []\<rparr>],
      services_len = no_len\<rparr>"

definition faulty_client :: client where
  "faulty_client =
     \<lparr>is_connected = True, services = Inl (Exception ''Service Discovery failed''),
      services_len = no_len\<rparr>"

text \<open>
  A working radio near three devices: the first refuses connections, the second accepts
  them, the third accepts and then fails while its services are read. Both clients are
  those of the \<open>bleak\<close> library, whose service collection has no length.
\<close>

definition working_radio :: radio where
  "working_radio =
     \<lparr>start_outcome = None, sleep_outcome = None, stop_outcome = None,
      advertisements =
        (\<lambda>t. [(refusing_device, silent_advertisement (- 60)),
              (accepting_device, silent_advertisement (- 90))]),
      discover_outcome = Inr [refusing_device, faulty_device, accepting_device],
      connect_outcome =
        (\<lambda>a. if a = ''AA:BB:CC:DD:EE:02'' then Inr accepting_client
             else if a = ''AA:BB:CC:DD:EE:03'' then Inr faulty_client
             else Inl (Exception ''Connection refused''))\<rparr>"

text \<open>A host whose Bluetooth adapter is off: every call into the radio stack raises.\<close>

definition radio_off :: radio where
  "radio_off =
     \<lparr>start_outcome = Some (Exception ''Bluetooth device is turned off''),
      sleep_outcome = None, stop_outcome = None,
      advertisements = (\<lambda>t. []),
      discover_outcome = Inl (Exception ''Bluetooth device is turned off''),
      connect_outcome = (\<lambda>a. Inl (Exception ''Bluetooth device is turned off''))\<rparr>"



text \<open>A working radio that hears no device.\<close>

definition quiet_radio :: radio where
  "quiet_radio =
     \<lparr>start_outcome = None, sleep_outcome = None, stop_outcome = None,
      advertisements = (\<lambda>t. []),
      discover_outcome = Inr [],
      connect_outcome = (\<lambda>a. Inl (Exception ''Device not found''))\<rparr>"

section \<open>Properties of the collected set\<close>

lemma map_of_dict_set: "map_of (dict_set d k v) = (map_of d)(k \<mapsto> v)"
  by (induction d) auto

lemma keys_dict_set:
  "map fst (dict_set d k v) = (if k \<in> fst ` set d then map fst d else map fst d @ [k])"
proof (induction d)
  case Nil
  show ?case by simp
next
  case (Cons p d)
  obtain k' v' where p: "p = (k', v')" by (cases p)
  show ?case using Cons.IH by (force simp: p)
qed

lemma distinct_dict_set: "distinct (map fst d) \<Longrightarrow> distinct (map fst (dict_set d k v))"
  by (simp add: keys_dict_set)

lemma collect_snoc:
  "collect (evs @ [(device, ad)]) = detection_callback (collect evs) device ad"
  by (simp add: collect_def)

lemma distinct_collect: "distinct (map fst (collect evs))"
proof (induction evs rule: rev_induct)
  case Nil
  show ?case by (simp add: collect_def)
next
  case (snoc x evs)
  obtain device ad where x: "x = (device, ad)" by (cases x)
  show ?case unfolding x collect_snoc detection_callback_def
    by (rule distinct_dict_set) (rule snoc.IH)
qed

lemma map_of_collect:
  "map_of (collect evs) a =
     (case find (\<lambda>(device, ad). address device = a) (rev evs) of
        None \<Rightarrow> None
      | Some (device, ad) \<Rightarrow>
          Some \<lparr>entry_device = device, entry_rssi = rssi ad,
                entry_name = py_or (name device) ''Unknown'', entry_advertisement_data = ad\<rparr>)"
proof (induction evs rule: rev_induct)
  case Nil
  show ?case by (simp add: collect_def)
next
  case (snoc x evs)
  obtain device ad where x: "x = (device, ad)" by (cases x)
  show ?case using snoc.IH
    by (simp add: x collect_snoc detection_callback_def map_of_dict_set)
qed

text \<open>
  Claim C5. Each advertisement event replaces the whole entry stored for its address: what
  is stored for an address at the end of the scan is the entry built from the last
  event received for that address alone, whatever earlier events for it said, and an
  address is stored at most once.
\<close>

theorem collect_last_event_wins:
  "map_of (collect (evs @ [(device, ad)])) (address device) =
     Some \<lparr>entry_device = device, entry_rssi = rssi ad,
           entry_name = py_or (name device) ''Unknown'', entry_advertisement_data = ad\<rparr>
   \<and> map_of (collect evs) a =
     (case find (\<lambda>(device, ad). address device = a) (rev evs) of
        None \<Rightarrow> None
      | Some (device, ad) \<Rightarrow>
          Some \<lparr>entry_device = device, entry_rssi = rssi ad,
                entry_name = py_or (name device) ''Unknown'', entry_advertisement_data = ad\<rparr>)
   \<and> distinct (map fst (collect evs))"
proof (intro conjI)
  show "map_of (collect (evs @ [(device, ad)])) (address device) =
     Some \<lparr>entry_device = device, entry_rssi = rssi ad,
           entry_name = py_or (name device) ''Unknown'', entry_advertisement_data = ad\<rparr>"
    by (simp add: collect_snoc detection_callback_def map_of_dict_set)
  show "map_of (collect evs) a =
     (case find (\<lambda>(device, ad). address device = a) (rev evs) of
        None \<Rightarrow> None
      | Some (device, ad) \<Rightarrow>
          Some \<lparr>entry_device = device, entry_rssi = rssi ad,
                entry_name = py_or (name device) ''Unknown'', entry_advertisement_data = ad\<rparr>)"
    by (rule map_of_collect)
  show "distinct (map fst (collect evs))"
    by (rule distinct_collect)
qed

section \<open>Properties of the filter\<close>


section \<open>Properties of the lookup of one device\<close>












section \<open>Sequencing, printing and exception handling\<close>

lemma then_do_None [simp]: "then_do (tr, None) b = (tr @ fst b, snd b)"
  by (simp add: then_do_def)

lemma then_do_Some [simp]: "then_do (tr, Some e) b = (tr, Some e)"
  by (simp add: then_do_def)

lemma fst_then_do:
  "fst (then_do a b) = fst a @ (if snd a = None then fst b else [])"
  by (cases a) (auto simp: then_do_def split: option.splits)

lemma snd_then_do:
  "snd (then_do a b) = (if snd a = None then snd b else snd a)"
  by (cases a) (auto simp: then_do_def split: option.splits)

lemma fst_prints [simp]: "fst (prints ls) = map Print ls"
  by (simp add: prints_def)

lemma snd_prints [simp]: "snd (prints ls) = None"
  by (simp add: prints_def)

lemma fst_try_except:
  "fst (try_except_Exception r h) =
     fst r @ (case snd r of Some (Exception m) \<Rightarrow> map Print (h m) | _ \<Rightarrow> [])"
  by (cases r) (auto simp: try_except_Exception_def split: option.splits exc.splits)

lemma snd_try_except:
  "snd (try_except_Exception r h) =
     (case snd r of Some (Exception m) \<Rightarrow> None | x \<Rightarrow> x)"
  by (cases r) (auto simp: try_except_Exception_def split: option.splits exc.splits)

section \<open>The waits of a run\<close>

lemma sleep_durations_append [simp]:
  "sleep_durations (a @ b) = sleep_durations a @ sleep_durations b"
  by (induction a rule: sleep_durations.induct) auto

lemma sleep_durations_Print [simp]: "sleep_durations (map Print ls) = []"
  by (induction ls) auto

lemma sleep_durations_try [simp]:
  "sleep_durations (fst (try_except_Exception r h)) = sleep_durations (fst r)"
  by (simp add: fst_try_except split: option.splits exc.splits)

lemma sleep_durations_exit_status [simp]:
  "sleep_durations (fst (exit_status r)) = sleep_durations (fst r)"
  by (cases r) (auto simp: exit_status_def split: option.splits exc.splits)

lemma sleep_durations_session [simp]:
  "sleep_durations (fst (get_device_info_session c)) = []"
  by (simp add: get_device_info_session_def fst_then_do split: sum.splits)

lemma sleep_durations_async [simp]:
  "sleep_durations (fst (async_with_client env a get_device_info_session)) = []"
  by (simp add: async_with_client_def split: sum.splits)

lemma sleep_get_device_info:
  "sleep_durations (fst (get_device_info env addr)) =
     (if start_outcome env = None \<and> sleep_outcome env = None then [10] else [])"
  by (simp add: get_device_info_def get_device_info_try_def fst_then_do snd_then_do
        scanner_start_def sleep_def scanner_stop_def split: option.splits prod.splits)

lemma not_found:
  "start_outcome env = None \<Longrightarrow> sleep_outcome env = None \<Longrightarrow> stop_outcome env = None \<Longrightarrow>
   fst (find_device addr (advertisements env 10)) = None \<Longrightarrow>
   get_device_info env addr =
     ([Print (''Getting detailed information for device: '' @ addr),
       Print ''Scanning for device...'', ScannerStart, Sleep 10, ScannerStop,
       Print (''Device with address '' @ addr @ '' not found during scan.'')], None)"
  by (cases "find_device addr (advertisements env 10)")
     (simp add: get_device_info_def get_device_info_try_def scanner_start_def sleep_def
        scanner_stop_def prints_def try_except_Exception_def)

lemma main_detail:
  "parse_args counts argv = Inr a \<Longrightarrow> args_address a = Some addr \<Longrightarrow> addr \<noteq> [] \<Longrightarrow>
   main counts env argv = exit_status (get_device_info env addr)"
  by (simp add: main_def dispatch_def)

section \<open>Traces that leave no connection open\<close>

lemma connections_closed_append:
  "connections_closed opened a \<Longrightarrow> connections_closed opened (a @ b) = connections_closed None b"
  by (induction opened a rule: connections_closed.induct) auto

lemma connections_closed_Print [simp]:
  "connections_closed opened (map Print ls @ tr) = connections_closed opened tr"
  by (induction ls) auto

lemma connections_closed_Print' [simp]:
  "connections_closed opened (map Print ls) = (opened = None)"
  using connections_closed_Print [of opened ls "[]"] by simp

lemma connections_closed_then_do:
  "connections_closed None (fst a) \<Longrightarrow> connections_closed None (fst b) \<Longrightarrow>
   connections_closed None (fst (then_do a b))"
  by (simp add: fst_then_do connections_closed_append)

lemma connections_closed_try:
  "connections_closed None (fst r) \<Longrightarrow> connections_closed None (fst (try_except_Exception r h))"
  by (simp add: fst_try_except connections_closed_append split: option.splits exc.splits)

lemma connections_closed_only_prints:
  "set tr \<subseteq> range Print \<Longrightarrow> connections_closed opened (tr @ rest) = connections_closed opened rest"
  by (induction tr) auto

lemma only_prints_session: "set (fst (get_device_info_session c)) \<subseteq> range Print"
  by (cases "services c") (auto simp: get_device_info_session_def fst_then_do)

lemma only_prints_disconnect_session: "set (fst (disconnect_session a c)) \<subseteq> range Print"
  by (cases "services c"; cases "services_len c") (auto simp: disconnect_session_def fst_then_do)

lemma connections_closed_async:
  assumes "\<And>c. set (fst (body c)) \<subseteq> range Print"
  shows "connections_closed None (fst (async_with_client env a body))"
proof (cases "connect_outcome env a")
  case (Inl e)
  then show ?thesis by (simp add: async_with_client_def)
next
  case (Inr c)
  then show ?thesis
    by (simp add: async_with_client_def connections_closed_only_prints [OF assms])
qed

lemma closed_connect_attempt:
  "connections_closed None
     (fst (try_except_Exception (async_with_client env addr get_device_info_session) h))"
  by (intro connections_closed_try connections_closed_async only_prints_session)

lemma closed_scanner_start: "connections_closed None (fst (scanner_start env))"
  by (simp add: scanner_start_def split: option.splits)

lemma closed_sleep: "connections_closed None (fst (sleep env t))"
  by (simp add: sleep_def split: option.splits)

lemma closed_scanner_stop: "connections_closed None (fst (scanner_stop env))"
  by (simp add: scanner_stop_def split: option.splits)

lemma closed_prints: "connections_closed None (fst (prints ls))"
  by simp

lemma closed_get_device_info_try: "connections_closed None (fst (get_device_info_try env addr))"
proof -
  obtain device_found advertisement_info
    where f: "find_device addr (advertisements env 10) = (device_found, advertisement_info)"
    by (cases "find_device addr (advertisements env 10)")
  show ?thesis
    unfolding get_device_info_try_def f
    by (cases device_found)
       (simp_all add: connections_closed_then_do closed_scanner_start closed_sleep
          closed_scanner_stop closed_connect_attempt)
qed

lemma closed_get_device_info: "connections_closed None (fst (get_device_info env addr))"
  unfolding get_device_info_def
  by (intro connections_closed_then_do connections_closed_try closed_get_device_info_try
        closed_prints)

lemma closed_process_device: "connections_closed None (fst (process_device env d))"
  unfolding process_device_def
  by (intro connections_closed_then_do connections_closed_try connections_closed_async
        only_prints_disconnect_session closed_prints)

lemma closed_process_devices: "connections_closed None (fst (process_devices env ds))"
  by (induction ds) (simp_all add: connections_closed_then_do closed_process_device)

lemma closed_scan_and_disconnect: "connections_closed None (fst (scan_and_disconnect_devices env))"
proof (cases "discover_outcome env")
  case (Inl e)
  then show ?thesis by (simp add: scan_and_disconnect_devices_def prints_def)
next
  case (Inr devices)
  have "connections_closed None (fst (process_devices env devices))"
    by (rule closed_process_devices)
  then show ?thesis using Inr
    by (simp add: scan_and_disconnect_devices_def fst_then_do connections_closed_append)
qed

lemma closed_exit_status:
  "connections_closed None (fst r) \<Longrightarrow> connections_closed None (fst (exit_status r))"
  by (cases r) (auto simp: exit_status_def connections_closed_append split: option.splits exc.splits)

lemma closed_scan_ble: "connections_closed None (fst (scan_ble_devices env t d))"
  unfolding scan_ble_devices_def
  by (intro connections_closed_then_do closed_prints closed_scanner_start closed_sleep
        closed_scanner_stop)

lemma closed_dispatch: "connections_closed None (fst (dispatch env a))"
  by (simp add: dispatch_def closed_scan_ble closed_get_device_info split: option.splits)

lemma closed_main: "connections_closed None (fst (main counts env argv))"
  by (cases "parse_args counts argv") (simp_all add: main_def closed_exit_status closed_dispatch)

lemma connections_closed_Connect:
  "connections_closed opened tr \<Longrightarrow> opened = Some a \<or> Connect a \<in> set tr \<Longrightarrow>
   Disconnect a \<in> set tr"
  by (induction opened tr rule: connections_closed.induct) auto

section \<open>The pass over all devices\<close>

lemma snd_async:
  "snd (async_with_client env addr (disconnect_session addr)) = session_fault env addr"
  by (auto simp: async_with_client_def session_fault_def disconnect_session_def snd_then_do
      split: sum.splits)

lemma snd_process_device:
  "snd (process_device env d) =
     (if session_fault env (address d) = Some KeyboardInterrupt then Some KeyboardInterrupt else None)"
  by (simp add: process_device_def snd_then_do snd_try_except snd_async
      split: option.splits exc.splits)

lemma process_devices_all:
  "\<forall>d\<in>set devices. session_fault env (address d) \<noteq> Some KeyboardInterrupt \<Longrightarrow>
   process_devices env devices = (concat (map (\<lambda>d. fst (process_device env d)) devices), None)"
proof (induction devices)
  case Nil
  show ?case by simp
next
  case (Cons d devices)
  have "snd (process_device env d) = None" using Cons.prems by (simp add: snd_process_device)
  then obtain tr where tr: "process_device env d = (tr, None)" by (cases "process_device env d") simp
  show ?case using Cons by (simp add: tr)
qed

lemma process_device_refused:
  "connect_outcome env (address d) = Inl (Exception msg) \<Longrightarrow>
   process_device env d =
     ([Print (''Device: '' @ py_or (name d) ''Unknown'' @ '' ('' @ address d @ '')''),
       Print (''  '' @ cross_mark @ '' Skipping (device not available or cannot connect): '' @ msg),
       Print ''''], None)"
  by (simp add: process_device_def async_with_client_def try_except_Exception_def prints_def)

lemma process_device_enum_fault:
  "connect_outcome env (address d) = Inr c \<Longrightarrow> services c = Inl (Exception msg) \<Longrightarrow>
   process_device env d =
     ([Print (''Device: '' @ py_or (name d) ''Unknown'' @ '' ('' @ address d @ '')''),
       Connect (address d),
       Print (''  '' @ check_mark @ '' Connected: '' @ str_bool (is_connected c)),
       Disconnect (address d),
       Print (''  '' @ cross_mark @ '' Skipping (device not available or cannot connect): '' @ msg),
       Print ''''], None)"
  by (simp add: process_device_def async_with_client_def try_except_Exception_def prints_def
        disconnect_session_def)

lemma process_device_len_fault:
  "connect_outcome env (address d) = Inr c \<Longrightarrow> services c = Inr svcs \<Longrightarrow>
   services_len c = Inl (Exception msg) \<Longrightarrow>
   process_device env d =
     ([Print (''Device: '' @ py_or (name d) ''Unknown'' @ '' ('' @ address d @ '')''),
       Connect (address d),
       Print (''  '' @ check_mark @ '' Connected: '' @ str_bool (is_connected c)),
       Disconnect (address d),
       Print (''  '' @ cross_mark @ '' Skipping (device not available or cannot connect): '' @ msg),
       Print ''''], None)"
  by (simp add: process_device_def async_with_client_def try_except_Exception_def prints_def
        disconnect_session_def)

lemma scan_and_disconnect_all:
  assumes "discover_outcome env = Inr devices" "devices \<noteq> []"
    and "\<forall>d\<in>set devices. session_fault env (address d) \<noteq> Some KeyboardInterrupt"
  shows "scan_and_disconnect_devices env =
     ([Print ''Scanning for BLE devices...'', Discover,
       Print (nl @ ''Found '' @ str_nat (length devices) @ '' device(s):'' @ nl)]
      @ concat (map (\<lambda>d. fst (process_device env d)) devices), None)"
  using assms(1,2) process_devices_all [OF assms(3)]
  by (simp add: scan_and_disconnect_devices_def prints_def)

lemma header_in_process_device:
  "Print (''Device: '' @ py_or (name d) ''Unknown'' @ '' ('' @ address d @ '')'')
     \<in> set (fst (process_device env d))"
  by (simp add: process_device_def fst_then_do)

lemma scan_ble_devices_ok:
  "scan_fault env = None \<Longrightarrow>
   scan_ble_devices env t d =
     ([Print (''Starting BLE scan for '' @ str_int t @ '' seconds...''), ScannerStart, Sleep t,
       ScannerStop] @ map Print (scan_report d (collect (advertisements env t))), None)"
  by (simp add: scan_ble_devices_def scan_fault_def scanner_start_def sleep_def scanner_stop_def
        prints_def split: option.splits)

text \<open>
  Claim C4. In the pass that connects to every discovered device, a failure of class
  \<open>Exception\<close> while connecting to a device or while enumerating its services is caught and
  printed with its cause, and the pass goes on to the next device: it ends without an
  exception, its trace is the traces of all the devices one after the other in the order
  of the list, and the header line of every device of the list is printed, whatever
  failed before it.
\<close>

theorem bulk_pass_isolates_failures:
  assumes "discover_outcome env = Inr devices" and "devices \<noteq> []"
    and "\<forall>d\<in>set devices. session_fault env (address d) \<noteq> Some KeyboardInterrupt"
  shows "scan_and_disconnect_devices env =
           ([Print ''Scanning for BLE devices...'', Discover,
             Print (nl @ ''Found '' @ str_nat (length devices) @ '' device(s):'' @ nl)]
            @ concat (map (\<lambda>d. fst (process_device env d)) devices), None)
     \<and> (\<forall>d\<in>set devices.
           Print (''Device: '' @ py_or (name d) ''Unknown'' @ '' ('' @ address d @ '')'')
             \<in> set (fst (scan_and_disconnect_devices env)))
     \<and> (\<forall>d msg. connect_outcome env (address d) = Inl (Exception msg) \<longrightarrow>
           process_device env d =
             ([Print (''Device: '' @ py_or (name d) ''Unknown'' @ '' ('' @ address d @ '')''),
               Print (''  '' @ cross_mark @
                 '' Skipping (device not available or cannot connect): '' @ msg),
               Print ''''], None))
     \<and> (\<forall>d c msg. connect_outcome env (address d) = Inr c \<and> services c = Inl (Exception msg) \<longrightarrow>
           process_device env d =
             ([Print (''Device: '' @ py_or (name d) ''Unknown'' @ '' ('' @ address d @ '')''),
               Connect (address d),
               Print (''  '' @ check_mark @ '' Connected: '' @ str_bool (is_connected c)),
               Disconnect (address d),
               Print (''  '' @ cross_mark @
                 '' Skipping (device not available or cannot connect): '' @ msg),
               Print ''''], None))
     \<and> (\<forall>d c svcs msg.
           connect_outcome env (address d) = Inr c \<and> services c = Inr svcs \<and>
           services_len c = Inl (Exception msg) \<longrightarrow>
           process_device env d =
             ([Print (''Device: '' @ py_or (name d) ''Unknown'' @ '' ('' @ address d @ '')''),
               Connect (address d),
               Print (''  '' @ check_mark @ '' Connected: '' @ str_bool (is_connected c)),
               Disconnect (address d),
               Print (''  '' @ cross_mark @
                 '' Skipping (device not available or cannot connect): '' @ msg),
               Print ''''], None))"
proof -
  have whole: "scan_and_disconnect_devices env =
           ([Print ''Scanning for BLE devices...'', Discover,
             Print (nl @ ''Found '' @ str_nat (length devices) @ '' device(s):'' @ nl)]
            @ concat (map (\<lambda>d. fst (process_device env d)) devices), None)"
    by (rule scan_and_disconnect_all [OF assms])
  have headers: "\<forall>d\<in>set devices.
           Print (''Device: '' @ py_or (name d) ''Unknown'' @ '' ('' @ address d @ '')'')
             \<in> set (fst (scan_and_disconnect_devices env))"
  proof
    fix d assume d: "d \<in> set devices"
    have "Print (''Device: '' @ py_or (name d) ''Unknown'' @ '' ('' @ address d @ '')'')
            \<in> set (concat (map (\<lambda>d. fst (process_device env d)) devices))"
      using d header_in_process_device [of d env] by (simp only: set_concat set_map) blast
    then show "Print (''Device: '' @ py_or (name d) ''Unknown'' @ '' ('' @ address d @ '')'')
             \<in> set (fst (scan_and_disconnect_devices env))"
      by (simp only: whole fst_conv set_append) blast
  qed
  have refused: "\<forall>d msg. connect_outcome env (address d) = Inl (Exception msg) \<longrightarrow>
           process_device env d =
             ([Print (''Device: '' @ py_or (name d) ''Unknown'' @ '' ('' @ address d @ '')''),
               Print (''  '' @ cross_mark @
                 '' Skipping (device not available or cannot connect): '' @ msg),
               Print ''''], None)"
    using process_device_refused by blast
  have enum: "\<forall>d c msg. connect_outcome env (address d) = Inr c \<and> services c = Inl (Exception msg) \<longrightarrow>
           process_device env d =
             ([Print (''Device: '' @ py_or (name d) ''Unknown'' @ '' ('' @ address d @ '')''),
               Connect (address d),
               Print (''  '' @ check_mark @ '' Connected: '' @ str_bool (is_connected c)),
               Disconnect (address d),
               Print (''  '' @ cross_mark @
                 '' Skipping (device not available or cannot connect): '' @ msg),
               Print ''''], None)"
    using process_device_enum_fault by blast
  have len: "\<forall>d c svcs msg.
           connect_outcome env (address d) = Inr c \<and> services c = Inr svcs \<and>
           services_len c = Inl (Exception msg) \<longrightarrow>
           process_device env d =
             ([Print (''Device: '' @ py_or (name d) ''Unknown'' @ '' ('' @ address d @ '')''),
               Connect (address d),
               Print (''  '' @ check_mark @ '' Connected: '' @ str_bool (is_connected c)),
               Disconnect (address d),
               Print (''  '' @ cross_mark @
                 '' Skipping (device not available or cannot connect): '' @ msg),
               Print ''''], None)"
    using process_device_len_fault by blast
  show ?thesis
    by (intro conjI) (rule whole headers refused enum len)+
qed

text \<open>
  The pass over three devices, of which the first refuses the connection and the second
  fails while its services are read, still reaches the third, whose session ends in the
  \<open>TypeError\<close> of \<open>len(client.services)\<close>.
\<close>

theorem bulk_pass_isolates_failures_witness:
  "discover_outcome working_radio = Inr [refusing_device, faulty_device, accepting_device]
   \<and> session_fault working_radio (address refusing_device) = Some (Exception ''Connection refused'')
   \<and> session_fault working_radio (address faulty_device) = Some (Exception ''Service Discovery failed'')
   \<and> session_fault working_radio (address accepting_device) =
        Some (Exception ''object of type 'BleakGATTServiceCollection' has no len()'')
   \<and> snd (scan_and_disconnect_devices working_radio) = None
   \<and> Print ''Device: Thermometer (AA:BB:CC:DD:EE:02)''
        \<in> set (fst (scan_and_disconnect_devices working_radio))
   \<and> process_device working_radio refusing_device =
        ([Print ''Device: Unknown (AA:BB:CC:DD:EE:01)'',
          Print (''  '' @ cross_mark @
            '' Skipping (device not available or cannot connect): Connection refused''),
          Print ''''], None)"
proof -
  have d: "discover_outcome working_radio = Inr [refusing_device, faulty_device, accepting_device]"
    by (simp add: working_radio_def)
  have f1: "session_fault working_radio (address refusing_device) = Some (Exception ''Connection refused'')"
    by (simp add: session_fault_def working_radio_def refusing_device_def)
  have f2: "session_fault working_radio (address faulty_device) = Some (Exception ''Service Discovery failed'')"
    by (simp add: session_fault_def working_radio_def faulty_device_def faulty_client_def)
  have f3: "session_fault working_radio (address accepting_device) =
        Some (Exception ''object of type 'BleakGATTServiceCollection' has no len()'')"
    by (simp add: session_fault_def working_radio_def accepting_device_def accepting_client_def
          no_len_def)
  have ne: "[refusing_device, faulty_device, accepting_device] \<noteq> []" by simp
  have ok: "\<forall>d\<in>set [refusing_device, faulty_device, accepting_device].
      session_fault working_radio (address d) \<noteq> Some KeyboardInterrupt"
    by (simp add: f1 f2 f3)
  note t = bulk_pass_isolates_failures [OF d ne ok]
  have c1: "connect_outcome working_radio (address refusing_device) = Inl (Exception ''Connection refused'')"
    by (simp add: working_radio_def refusing_device_def)
  note t1 = t [THEN conjunct1]
  note t2 = t [THEN conjunct2, THEN conjunct1]
  note t3 = t [THEN conjunct2, THEN conjunct2, THEN conjunct1]
  have r1: "snd (scan_and_disconnect_devices working_radio) = None"
    by (simp only: t1 snd_conv)
  have r2: "Print ''Device: Thermometer (AA:BB:CC:DD:EE:02)''
        \<in> set (fst (scan_and_disconnect_devices working_radio))"
  proof -
    have "Print (''Device: '' @ py_or (name accepting_device) ''Unknown'' @ '' ('' @
        address accepting_device @ '')'') \<in> set (fst (scan_and_disconnect_devices working_radio))"
      using t2 by simp
    then show ?thesis by (simp add: accepting_device_def py_or_def)
  qed
  have r3: "process_device working_radio refusing_device =
        ([Print (''Device: '' @ py_or (name refusing_device) ''Unknown'' @ '' ('' @
            address refusing_device @ '')''),
          Print (''  '' @ cross_mark @
            '' Skipping (device not available or cannot connect): '' @ ''Connection refused''),
          Print ''''], None)"
    using t3 c1 by blast
  have r3': "process_device working_radio refusing_device =
        ([Print ''Device: Unknown (AA:BB:CC:DD:EE:01)'',
          Print (''  '' @ cross_mark @
            '' Skipping (device not available or cannot connect): Connection refused''),
          Print ''''], None)"
    using r3 by (simp add: refusing_device_def py_or_def)
  show ?thesis using d f1 f2 f3 r1 r2 r3' by simp
qed

section \<open>The command line\<close>

lemma parse_known_args_seen_conflict:
  "a \<in> set seen \<Longrightarrow> y \<in> set argv \<Longrightarrow> counts y \<Longrightarrow> a \<noteq> opt_action y \<Longrightarrow>
   isl (parse_known_args counts seen ns argv)"
proof (induction argv arbitrary: seen ns)
  case Nil
  then show ?case by simp
next
  case (Cons w ws)
  show ?case
  proof (cases "counts w")
    case False
    then have "y \<in> set ws" using Cons.prems(2,3) by auto
    then have "isl (parse_known_args counts seen (store ns w) ws)"
      using Cons.IH Cons.prems(1,3,4) by blast
    then show ?thesis using False by simp
  next
    case True
    show ?thesis
    proof (cases "find (\<lambda>b. b \<noteq> opt_action w) seen")
      case (Some b)
      then show ?thesis using True by simp
    next
      case None
      then have "a = opt_action w" using Cons.prems(1) by (auto simp: find_None_iff)
      then have "y \<in> set ws" using Cons.prems(2,4) by auto
      moreover have "a \<in> set (seen @ [opt_action w])" using Cons.prems(1) by simp
      ultimately have "isl (parse_known_args counts (seen @ [opt_action w]) (store ns w) ws)"
        using Cons.IH Cons.prems(3,4) by blast
      then show ?thesis using None True by simp
    qed
  qed
qed

lemma parse_known_args_conflict:
  "x \<in> set argv \<Longrightarrow> y \<in> set argv \<Longrightarrow> counts x \<Longrightarrow> counts y \<Longrightarrow>
   opt_action x \<noteq> opt_action y \<Longrightarrow> isl (parse_known_args counts seen ns argv)"
proof (induction argv arbitrary: seen ns)
  case Nil
  then show ?case by simp
next
  case (Cons w ws)
  show ?case
  proof (cases "counts w")
    case False
    then have "x \<in> set ws" "y \<in> set ws" using Cons.prems(1-4) by auto
    then have "isl (parse_known_args counts seen (store ns w) ws)"
      using Cons.IH Cons.prems(3-5) by blast
    then show ?thesis using False by simp
  next
    case True
    show ?thesis
    proof (cases "find (\<lambda>b. b \<noteq> opt_action w) seen")
      case (Some b)
      then show ?thesis using True by simp
    next
      case None
      have "isl (parse_known_args counts (seen @ [opt_action w]) (store ns w) ws)"
      proof (cases "x \<in> set ws \<and> y \<in> set ws")
        case True
        then show ?thesis using Cons.IH Cons.prems(3-5) by blast
      next
        case False
        then consider "x = w" "y \<in> set ws" | "y = w" "x \<in> set ws"
          using Cons.prems by auto
        then show ?thesis
        proof cases
          case 1
          show ?thesis
            by (rule parse_known_args_seen_conflict [of "opt_action w" _ y])
               (use 1 Cons.prems(4,5) in simp_all)
        next
          case 2
          show ?thesis
            by (rule parse_known_args_seen_conflict [of "opt_action w" _ x])
               (use 2 Cons.prems(3,5) in auto)
        qed
      qed
      then show ?thesis using None True by simp
    qed
  qed
qed

lemma main_conflict:
  "x \<in> set argv \<Longrightarrow> y \<in> set argv \<Longrightarrow> counts x \<Longrightarrow> counts y \<Longrightarrow>
   opt_action x \<noteq> opt_action y \<Longrightarrow> main counts env argv = ([], 2)"
  using parse_known_args_conflict [of x argv y counts "[]" default_args]
  by (cases "parse_args counts argv") (simp_all add: main_def parse_args_def)

lemma counts_unless_default_simps [simp]:
  "counts_unless_default (OptAddress a)"
  "counts_unless_default (OptDbmMax d)"
  "counts_unless_default (OptScanTime t) = (t \<noteq> 5)"
  by (simp_all add: counts_unless_default_def)

lemma counts_always_simp [simp]: "counts_always x"
  by (simp add: counts_always_def)

lemma main_single: "main counts env [x] = exit_status (dispatch env (store default_args x))"
  by (simp add: main_def parse_args_def)

lemma main_no_option: "main counts env [] = exit_status (dispatch env default_args)"
  by (simp add: main_def parse_args_def)

lemma main_two_options:
  "counts x \<Longrightarrow> counts y \<Longrightarrow> opt_action x \<noteq> opt_action y \<Longrightarrow> main counts env [x, y] = ([], 2)"
  by (rule main_conflict [of x _ y]) simp_all

text \<open>
  Claim C1 fails as stated. With both \<open>--scan-time 10\<close> and \<open>--dbm-max -70\<close> on the command
  line the parser rejects the second option, whichever way it counts occurrences: the
  process ends with status 2, prints nothing to standard output and does not scan at
  all.
\<close>

theorem both_flags_counterexample:
  "main counts_unless_default working_radio [OptScanTime 10, OptDbmMax (- 70)] = ([], 2)
   \<and> main counts_always working_radio [OptScanTime 10, OptDbmMax (- 70)] = ([], 2)
   \<and> sleep_durations
        (fst (main counts_unless_default working_radio [OptScanTime 10, OptDbmMax (- 70)])) = []"
  by (simp add: main_two_options)

text \<open>
  Claim C1, amended. The three options form one mutually exclusive group: a command line
  with occurrences of two different options that the parser counts as present is
  rejected with status 2 before any scan. That holds for \<open>--scan-time\<close> together with
  \<open>--dbm-max\<close>, in either order, where every occurrence counts, and also where the
  default object does not count unless the scan time given is 5. Given alone,
  \<open>--scan-time\<close> sets the duration of the bulk scan and leaves the threshold at -80,
  \<open>--dbm-max\<close> sets the threshold and leaves the duration at 5, and with no option both
  defaults apply; a scan whose scanner calls succeed waits the given number of seconds
  and reports on the collected devices with the given threshold. Only \<open>--address\<close>, with
  a non-empty value, runs the detail of one device instead.
\<close>

theorem flags_mutually_exclusive:
  "((\<exists>x\<in>set argv. \<exists>y\<in>set argv. counts x \<and> counts y \<and> opt_action x \<noteq> opt_action y) \<longrightarrow>
      main counts env argv = ([], 2))
   \<and> main counts_always env [OptScanTime t, OptDbmMax d] = ([], 2)
   \<and> main counts_always env [OptDbmMax d, OptScanTime t] = ([], 2)
   \<and> (t \<noteq> 5 \<longrightarrow>
        main counts_unless_default env [OptScanTime t, OptDbmMax d] = ([], 2) \<and>
        main counts_unless_default env [OptDbmMax d, OptScanTime t] = ([], 2))
   \<and> main counts env [OptScanTime t] = exit_status (scan_ble_devices env t (- 80))
   \<and> main counts env [OptDbmMax d] = exit_status (scan_ble_devices env 5 d)
   \<and> main counts env [] = exit_status (scan_ble_devices env 5 (- 80))
   \<and> (addr \<noteq> [] \<longrightarrow> main counts env [OptAddress addr] = exit_status (get_device_info env addr))
   \<and> (scan_fault env = None \<longrightarrow>
        scan_ble_devices env t d =
          ([Print (''Starting BLE scan for '' @ str_int t @ '' seconds...''), ScannerStart,
            Sleep t, ScannerStop]
           @ map Print (scan_report d (collect (advertisements env t))), None))"
proof (intro conjI impI)
  assume "\<exists>x\<in>set argv. \<exists>y\<in>set argv. counts x \<and> counts y \<and> opt_action x \<noteq> opt_action y"
  then obtain x y where "x \<in> set argv" "y \<in> set argv" "counts x" "counts y"
      "opt_action x \<noteq> opt_action y"
    by blast
  then show "main counts env argv = ([], 2)" by (rule main_conflict)
next
  show "main counts_always env [OptScanTime t, OptDbmMax d] = ([], 2)"
    by (simp add: main_two_options)
next
  show "main counts_always env [OptDbmMax d, OptScanTime t] = ([], 2)"
    by (simp add: main_two_options)
next
  assume "t \<noteq> 5"
  then show "main counts_unless_default env [OptScanTime t, OptDbmMax d] = ([], 2)"
    by (simp add: main_two_options)
next
  assume "t \<noteq> 5"
  then show "main counts_unless_default env [OptDbmMax d, OptScanTime t] = ([], 2)"
    by (simp add: main_two_options)
next
  show "main counts env [OptScanTime t] = exit_status (scan_ble_devices env t (- 80))"
    by (simp add: main_single dispatch_def default_args_def)
next
  show "main counts env [OptDbmMax d] = exit_status (scan_ble_devices env 5 d)"
    by (simp add: main_single dispatch_def default_args_def)
next
  show "main counts env [] = exit_status (scan_ble_devices env 5 (- 80))"
    by (simp add: main_no_option dispatch_def default_args_def)
next
  assume "addr \<noteq> []"
  then show "main counts env [OptAddress addr] = exit_status (get_device_info env addr)"
    by (simp add: main_single dispatch_def default_args_def)
next
  assume "scan_fault env = None"
  then show "scan_ble_devices env t d =
          ([Print (''Starting BLE scan for '' @ str_int t @ '' seconds...''), ScannerStart,
            Sleep t, ScannerStop]
           @ map Print (scan_report d (collect (advertisements env t))), None)"
    by (rule scan_ble_devices_ok)
qed

lemma scan_fault_working_radio: "scan_fault working_radio = None"
  by (simp add: scan_fault_def working_radio_def)

lemma collect_working_radio:
  "collect (advertisements working_radio t) =
     [(''AA:BB:CC:DD:EE:01'',
       \<lparr>entry_device = refusing_device, entry_rssi = - 60, entry_name = ''Unknown'',
        entry_advertisement_data = silent_advertisement (- 60)\<rparr>),
      (''AA:BB:CC:DD:EE:02'',
       \<lparr>entry_device = accepting_device, entry_rssi = - 90, entry_name = ''Thermometer'',
        entry_advertisement_data = silent_advertisement (- 90)\<rparr>)]"
  by (simp add: collect_def working_radio_def detection_callback_def refusing_device_def
        accepting_device_def py_or_def silent_advertisement_def)

lemma str_nat_digit: "n < 10 \<Longrightarrow> str_nat n = [digit_char n]"
  by (simp add: str_nat.simps)

text \<open>
  Two different options are rejected; \<open>--scan-time 7\<close> alone scans for 7 seconds and
  reports the one device above the default threshold of -80.
\<close>

theorem flags_mutually_exclusive_witness:
  "(\<exists>x\<in>set [OptDbmMax (- 70), OptScanTime 7]. \<exists>y\<in>set [OptDbmMax (- 70), OptScanTime 7].
      counts_unless_default x \<and> counts_unless_default y \<and> opt_action x \<noteq> opt_action y)
   \<and> main counts_unless_default working_radio [OptDbmMax (- 70), OptScanTime 7] = ([], 2)
   \<and> (7 :: int) \<noteq> 5
   \<and> main counts_unless_default working_radio [OptScanTime 7, OptDbmMax (- 80)] = ([], 2)
   \<and> ''AA:BB:CC:DD:EE:FF'' \<noteq> []
   \<and> main counts_unless_default working_radio [OptAddress ''AA:BB:CC:DD:EE:FF''] =
        exit_status (get_device_info working_radio ''AA:BB:CC:DD:EE:FF'')
   \<and> scan_fault working_radio = None
   \<and> main counts_unless_default working_radio [OptScanTime 7] =
       ([Print ''Starting BLE scan for 7 seconds...'', ScannerStart, Sleep 7, ScannerStop,
         Print (nl @ ''Found 1 device(s):''),
         Print (replicate 80 CHR ''-''),
         Print ''Name: Unknown'',
         Print ''Address: AA:BB:CC:DD:EE:01'',
         Print ''RSSI: -60 dBm'',
         Print (replicate 40 CHR ''-''),
         Print ''Scan complete.''], 0)"
proof -
  note t = flags_mutually_exclusive
    [of "[OptDbmMax (- 70), OptScanTime 7]" counts_unless_default working_radio 7 "- 80"
        "''AA:BB:CC:DD:EE:FF''"]
  have h1: "\<exists>x\<in>set [OptDbmMax (- 70), OptScanTime 7]. \<exists>y\<in>set [OptDbmMax (- 70), OptScanTime 7].
      counts_unless_default x \<and> counts_unless_default y \<and> opt_action x \<noteq> opt_action y"
    by (rule bexI [of _ "OptDbmMax (- 70)"], rule bexI [of _ "OptScanTime 7"]) simp_all
  have h2: "(7 :: int) \<noteq> 5" by simp
  have r1: "main counts_unless_default working_radio [OptDbmMax (- 70), OptScanTime 7] = ([], 2)"
    using t h1 by blast
  have r1': "main counts_unless_default working_radio [OptScanTime 7, OptDbmMax (- 80)] = ([], 2)"
    using t h2 by blast
  have r2: "main counts_unless_default working_radio [OptAddress ''AA:BB:CC:DD:EE:FF''] =
        exit_status (get_device_info working_radio ''AA:BB:CC:DD:EE:FF'')"
    using t by simp
  have m: "main counts_unless_default working_radio [OptScanTime 7] =
      exit_status (scan_ble_devices working_radio 7 (- 80))"
    using t by blast
  have s: "scan_ble_devices working_radio 7 (- 80) =
          ([Print (''Starting BLE scan for '' @ str_int 7 @ '' seconds...''), ScannerStart,
            Sleep 7, ScannerStop]
           @ map Print (scan_report (- 80) (collect (advertisements working_radio 7))), None)"
    using t scan_fault_working_radio by blast
  have rep: "scan_report (- 80) (collect (advertisements working_radio 7)) =
       [nl @ ''Found 1 device(s):'', replicate 80 CHR ''-'', ''Name: Unknown'',
        ''Address: AA:BB:CC:DD:EE:01'', ''RSSI: -60 dBm'', replicate 40 CHR ''-'',
        ''Scan complete.'']"
    by (simp add: collect_working_radio scan_report_def filter_devices_def device_lines_def
          silent_advertisement_def str_int_def str_nat_digit digit_char_def str_nat.simps [of 60])
  have r3: "main counts_unless_default working_radio [OptScanTime 7] =
       ([Print ''Starting BLE scan for 7 seconds...'', ScannerStart, Sleep 7, ScannerStop,
         Print (nl @ ''Found 1 device(s):''),
         Print (replicate 80 CHR ''-''),
         Print ''Name: Unknown'',
         Print ''Address: AA:BB:CC:DD:EE:01'',
         Print ''RSSI: -60 dBm'',
         Print (replicate 40 CHR ''-''),
         Print ''Scan complete.''], 0)"
    by (simp only: m s rep) (simp add: exit_status_def str_int_def str_nat_digit digit_char_def)
  have ne: "''AA:BB:CC:DD:EE:FF'' \<noteq> []" by simp
  show ?thesis
    by (intro conjI) (rule h1 r1 h2 r1' ne r2 scan_fault_working_radio r3)+
qed

section \<open>The exit status\<close>

lemma snd_exit_status:
  "snd (exit_status r) = (case snd r of Some (Exception m) \<Rightarrow> 1 | _ \<Rightarrow> 0)"
  by (cases r) (auto simp: exit_status_def split: option.splits exc.splits)

lemma snd_scan_ble_devices: "snd (scan_ble_devices env t d) = scan_fault env"
  by (simp add: scan_ble_devices_def snd_then_do scan_fault_def scanner_start_def sleep_def
        scanner_stop_def split: option.splits)

lemma snd_get_device_info: "snd (get_device_info env addr) \<noteq> Some (Exception m)"
  by (simp add: get_device_info_def snd_then_do snd_try_except split: option.splits exc.splits)

text \<open>
  Claim C2 fails as stated. In the detail mode, with the radio unavailable,
  \<open>scanner.start()\<close> raises inside the \<open>try\<close> block of \<open>get_device_info\<close>, whose own
  \<open>except Exception\<close> prints the error and returns: nothing reaches \<open>main\<close> and the
  process ends with status 0.
\<close>

theorem detail_mode_radio_off_counterexample:
  "start_outcome radio_off = Some (Exception ''Bluetooth device is turned off'')
   \<and> main counts_unless_default radio_off [OptAddress ''AA:BB:CC:DD:EE:FF''] =
     ([Print ''Getting detailed information for device: AA:BB:CC:DD:EE:FF'',
       Print ''Scanning for device...'',
       Print ''Error getting device information: Bluetooth device is turned off''], 0)"
  by (simp add: radio_off_def main_def parse_args_def default_args_def dispatch_def
        get_device_info_def get_device_info_try_def scanner_start_def prints_def
        try_except_Exception_def exit_status_def)

text \<open>
  Claim C2, amended. A command line the parser rejects ends with status 2. In the bulk
  mode a fault of class \<open>Exception\<close> in the scanner calls, the unavailable radio among
  them, reaches \<open>main\<close> and the status is 1; a user interrupt gives status 0, as does a
  scan without fault. In the detail mode the status is always 0: every \<open>Exception\<close>, be
  it the unavailable radio or a connection or enumeration fault, is caught inside
  \<open>get_device_info\<close>, and a user interrupt is answered with status 0.
\<close>

theorem exit_status_by_mode:
  "snd (main counts env argv) =
     (case parse_args counts argv of
        Inl e \<Rightarrow> 2
      | Inr a \<Rightarrow>
          if detail_mode a then 0
          else (case scan_fault env of
                  None \<Rightarrow> 0
                | Some KeyboardInterrupt \<Rightarrow> 0
                | Some (Exception m) \<Rightarrow> 1))"
proof (cases "parse_args counts argv")
  case (Inl e)
  then show ?thesis by (simp add: main_def)
next
  case (Inr a)
  show ?thesis
  proof (cases "detail_mode a")
    case True
    then obtain addr where "args_address a = Some addr" "addr \<noteq> []"
      by (auto simp: detail_mode_def split: option.splits)
    then show ?thesis using Inr True snd_get_device_info [of env addr]
      by (simp add: main_def dispatch_def snd_exit_status split: option.splits exc.splits)
  next
    case False
    then have "dispatch env a = scan_ble_devices env (args_scan_time a) (args_dbm_max a)"
      by (auto simp: detail_mode_def dispatch_def split: option.splits)
    then show ?thesis using Inr False
      by (simp add: main_def snd_exit_status snd_scan_ble_devices split: option.splits exc.splits)
  qed
qed

section \<open>The two empty results of the bulk scan\<close>

text \<open>
  Claim C6. When nothing was collected the bulk scan prints \<open>No BLE devices found.\<close> and
  nothing more. When devices were collected and none is above the threshold it prints
  one other line, which names the threshold and the number of devices collected; the
  two outputs are never equal, whatever the thresholds.
\<close>

theorem empty_results_distinguished:
  "scan_report dbm_max [] = [''No BLE devices found.'']
   \<and> (discovered_devices \<noteq> [] \<and> filter_devices dbm_max discovered_devices = [] \<longrightarrow>
        scan_report dbm_max discovered_devices =
          [''No BLE devices found with RSSI > '' @ str_int dbm_max @ '' dBm (found '' @
             str_nat (length discovered_devices) @ '' total, all filtered out).'']
        \<and> scan_report dbm_max discovered_devices \<noteq> scan_report dbm_max' [])
   \<and> (scan_fault env = None \<and> collect (advertisements env scan_time) = [] \<longrightarrow>
        scan_ble_devices env scan_time dbm_max =
          ([Print (''Starting BLE scan for '' @ str_int scan_time @ '' seconds...''),
            ScannerStart, Sleep scan_time, ScannerStop, Print ''No BLE devices found.''], None))"
  by (simp add: scan_report_def scan_ble_devices_ok)

text \<open>
  Two devices at -60 and -90 dBm with a threshold of -50, and a scan that hears nothing.
\<close>

theorem empty_results_distinguished_witness:
  "collect (advertisements working_radio 5) \<noteq> []
   \<and> filter_devices (- 50) (collect (advertisements working_radio 5)) = []
   \<and> scan_report (- 50) (collect (advertisements working_radio 5)) =
        [''No BLE devices found with RSSI > -50 dBm (found 2 total, all filtered out).'']
   \<and> scan_fault quiet_radio = None
   \<and> collect (advertisements quiet_radio 5) = []
   \<and> scan_ble_devices quiet_radio 5 (- 50) =
        ([Print ''Starting BLE scan for 5 seconds...'', ScannerStart, Sleep 5, ScannerStop,
          Print ''No BLE devices found.''], None)"
proof -
  have h1: "collect (advertisements working_radio 5) \<noteq> []"
    by (simp add: collect_working_radio)
  have h2: "filter_devices (- 50) (collect (advertisements working_radio 5)) = []"
    by (simp add: collect_working_radio filter_devices_def)
  have h3: "scan_fault quiet_radio = None"
    by (simp add: scan_fault_def quiet_radio_def)
  have h4: "collect (advertisements quiet_radio 5) = []"
    by (simp add: collect_def quiet_radio_def)
  note t = empty_results_distinguished
    [of "- 50" "collect (advertisements working_radio 5)" "- 50" quiet_radio 5]
  have r1: "scan_report (- 50) (collect (advertisements working_radio 5)) =
          [''No BLE devices found with RSSI > '' @ str_int (- 50) @ '' dBm (found '' @
             str_nat (length (collect (advertisements working_radio 5))) @
             '' total, all filtered out).'']"
    using t h1 h2 by blast
  have r1': "scan_report (- 50) (collect (advertisements working_radio 5)) =
        [''No BLE devices found with RSSI > -50 dBm (found 2 total, all filtered out).'']"
    by (simp only: r1)
       (simp add: collect_working_radio str_int_def str_nat_digit digit_char_def
          str_nat.simps [of 50])
  have r2: "scan_ble_devices quiet_radio 5 (- 50) =
          ([Print (''Starting BLE scan for '' @ str_int 5 @ '' seconds...''),
            ScannerStart, Sleep 5, ScannerStop, Print ''No BLE devices found.''], None)"
    using t h3 h4 by blast
  have r2': "scan_ble_devices quiet_radio 5 (- 50) =
        ([Print ''Starting BLE scan for 5 seconds...'', ScannerStart, Sleep 5, ScannerStop,
          Print ''No BLE devices found.''], None)"
    by (simp only: r2) (simp add: str_int_def str_nat_digit digit_char_def)
  show ?thesis
    by (intro conjI) (rule h1 h2 r1' h3 h4 r2')+
qed

section \<open>The dispatch on the address\<close>

text \<open>
  Claim C9. With the empty string as the value of \<open>--address\<close>, \<open>main\<close> runs the bulk scan
  with the default duration and threshold, exactly as with no option at all: the
  dispatch tests whether \<open>args.address\<close> is truthy.
\<close>

theorem empty_address_runs_bulk_scan:
  "main counts env [OptAddress ''''] = exit_status (scan_ble_devices env 5 (- 80))
   \<and> main counts env [OptAddress ''''] = main counts env []"
  by (simp add: main_def parse_args_def dispatch_def default_args_def)

section \<open>The scan of the detail mode\<close>

text \<open>
  Claim C10. The detail mode waits for 10 seconds and for nothing else: the waits of
  \<open>get_device_info\<close> are the single wait of 10 seconds once the scanner has started and
  the wait is not interrupted, and none otherwise; the same holds for every command
  line that leads \<open>main\<close> to the detail mode. The verdict that the device was not found
  is printed after the scanner was started, the 10 seconds waited and the scanner
  stopped.
\<close>

theorem detail_scan_lasts_ten_seconds:
  "sleep_durations (fst (get_device_info env addr)) =
     (if start_outcome env = None \<and> sleep_outcome env = None then [10] else [])
   \<and> (parse_args counts argv = Inr a \<and> detail_mode a \<longrightarrow>
        sleep_durations (fst (main counts env argv)) =
          (if start_outcome env = None \<and> sleep_outcome env = None then [10] else []))
   \<and> (scan_fault env = None \<and> fst (find_device addr (advertisements env 10)) = None \<longrightarrow>
        get_device_info env addr =
          ([Print (''Getting detailed information for device: '' @ addr),
            Print ''Scanning for device...'', ScannerStart, Sleep 10, ScannerStop,
            Print (''Device with address '' @ addr @ '' not found during scan.'')], None))"
proof (intro conjI impI)
  show "sleep_durations (fst (get_device_info env addr)) =
     (if start_outcome env = None \<and> sleep_outcome env = None then [10] else [])"
    by (rule sleep_get_device_info)
next
  assume h: "parse_args counts argv = Inr a \<and> detail_mode a"
  then obtain a' where a': "args_address a = Some a'" "a' \<noteq> []"
    by (auto simp: detail_mode_def split: option.splits)
  have "main counts env argv = exit_status (get_device_info env a')"
    using h a' by (simp add: main_detail)
  then show "sleep_durations (fst (main counts env argv)) =
          (if start_outcome env = None \<and> sleep_outcome env = None then [10] else [])"
    by (simp add: sleep_get_device_info)
next
  assume h: "scan_fault env = None \<and> fst (find_device addr (advertisements env 10)) = None"
  then have "start_outcome env = None" "sleep_outcome env = None" "stop_outcome env = None"
    by (auto simp: scan_fault_def split: option.splits)
  then show "get_device_info env addr =
          ([Print (''Getting detailed information for device: '' @ addr),
            Print ''Scanning for device...'', ScannerStart, Sleep 10, ScannerStop,
            Print (''Device with address '' @ addr @ '' not found during scan.'')], None)"
    using h by (simp add: not_found)
qed

text \<open>An address that no nearby device has: the run waits 10 seconds, then reports it.\<close>

theorem detail_scan_lasts_ten_seconds_witness:
  "parse_args counts_unless_default [OptAddress ''aa:bb:cc:dd:ee:09''] =
     Inr \<lparr>args_address = Some ''aa:bb:cc:dd:ee:09'', args_scan_time = 5, args_dbm_max = - 80\<rparr>
   \<and> detail_mode \<lparr>args_address = Some ''aa:bb:cc:dd:ee:09'', args_scan_time = 5, args_dbm_max = - 80\<rparr>
   \<and> sleep_durations (fst (main counts_unless_default working_radio [OptAddress ''aa:bb:cc:dd:ee:09''])) = [10]
   \<and> scan_fault working_radio = None
   \<and> fst (find_device ''aa:bb:cc:dd:ee:09'' (advertisements working_radio 10)) = None
   \<and> get_device_info working_radio ''aa:bb:cc:dd:ee:09'' =
        ([Print ''Getting detailed information for device: aa:bb:cc:dd:ee:09'',
          Print ''Scanning for device...'', ScannerStart, Sleep 10, ScannerStop,
          Print ''Device with address aa:bb:cc:dd:ee:09 not found during scan.''], None)"
proof -
  have h1: "parse_args counts_unless_default [OptAddress ''aa:bb:cc:dd:ee:09''] =
     Inr \<lparr>args_address = Some ''aa:bb:cc:dd:ee:09'', args_scan_time = 5, args_dbm_max = - 80\<rparr>"
    by (simp add: parse_args_def default_args_def)
  have h2: "detail_mode \<lparr>args_address = Some ''aa:bb:cc:dd:ee:09'', args_scan_time = 5, args_dbm_max = - 80\<rparr>"
    by (simp add: detail_mode_def)
  have h3: "fst (find_device ''aa:bb:cc:dd:ee:09'' (advertisements working_radio 10)) = None"
    by (simp add: find_device_def working_radio_def get_device_info_detection_callback_def
          refusing_device_def accepting_device_def py_lower_def lower_char_def)
  have s: "start_outcome working_radio = None \<and> sleep_outcome working_radio = None"
    by (simp add: working_radio_def)
  note t = detail_scan_lasts_ten_seconds
    [of working_radio "''aa:bb:cc:dd:ee:09''" counts_unless_default
        "[OptAddress ''aa:bb:cc:dd:ee:09'']"
        "\<lparr>args_address = Some ''aa:bb:cc:dd:ee:09'', args_scan_time = 5, args_dbm_max = - 80\<rparr>"]
  have r1: "sleep_durations (fst (main counts_unless_default working_radio [OptAddress ''aa:bb:cc:dd:ee:09''])) = [10]"
    using t h1 h2 s by simp
  have r2: "get_device_info working_radio ''aa:bb:cc:dd:ee:09'' =
        ([Print (''Getting detailed information for device: '' @ ''aa:bb:cc:dd:ee:09''),
          Print ''Scanning for device...'', ScannerStart, Sleep 10, ScannerStop,
          Print (''Device with address '' @ ''aa:bb:cc:dd:ee:09'' @ '' not found during scan.'')], None)"
    using t h3 scan_fault_working_radio by blast
  have r2': "get_device_info working_radio ''aa:bb:cc:dd:ee:09'' =
        ([Print ''Getting detailed information for device: aa:bb:cc:dd:ee:09'',
          Print ''Scanning for device...'', ScannerStart, Sleep 10, ScannerStop,
          Print ''Device with address aa:bb:cc:dd:ee:09 not found during scan.''], None)"
    using r2 by simp
  show ?thesis
    by (intro conjI) (rule h1 h2 r1 scan_fault_working_radio h3 r2')+
qed

section \<open>Every opened connection is closed\<close>

lemma Connect_in_async:
  "connect_outcome env a = Inr c \<Longrightarrow> Connect a \<in> set (fst (async_with_client env a body))"
  by (simp add: async_with_client_def)

lemma Connect_in_process_device:
  "connect_outcome env (address d) = Inr c \<Longrightarrow> Connect (address d) \<in> set (fst (process_device env d))"
  by (simp add: process_device_def fst_then_do fst_try_except Connect_in_async)

lemma Connect_in_get_device_info:
  assumes "scan_fault env = None" "fst (find_device addr (advertisements env 10)) = Some dev"
    and "connect_outcome env addr = Inr c"
  shows "Connect addr \<in> set (fst (get_device_info env addr))"
proof -
  have s: "start_outcome env = None" "sleep_outcome env = None" "stop_outcome env = None"
    using assms(1) by (auto simp: scan_fault_def split: option.splits)
  obtain ad where f: "find_device addr (advertisements env 10) = (Some dev, ad)"
    using assms(2) by (cases "find_device addr (advertisements env 10)") simp
  show ?thesis
    by (simp add: get_device_info_def get_device_info_try_def fst_then_do snd_then_do
          fst_try_except scanner_start_def sleep_def scanner_stop_def s f
          Connect_in_async [OF assms(3)])
qed

text \<open>
  Claim C8. No run leaves a connection open: in the trace of \<open>get_device_info\<close>, of
  \<open>scan_and_disconnect_devices\<close> and of \<open>main\<close>, a connection that was opened is closed
  before anything but printing happens, and before the run ends. A connection that
  opens is closed whether the enumeration completes or raises.
\<close>

theorem connections_always_closed:
  "connections_closed None (fst (get_device_info env addr))
   \<and> connections_closed None (fst (scan_and_disconnect_devices env))
   \<and> connections_closed None (fst (main counts env argv))
   \<and> (Connect a \<in> set (fst (get_device_info env addr)) \<longrightarrow>
        Disconnect a \<in> set (fst (get_device_info env addr)))
   \<and> (Connect a \<in> set (fst (scan_and_disconnect_devices env)) \<longrightarrow>
        Disconnect a \<in> set (fst (scan_and_disconnect_devices env)))
   \<and> (scan_fault env = None \<and> fst (find_device addr (advertisements env 10)) = Some dev \<and>
        connect_outcome env addr = Inr c \<longrightarrow>
        Connect addr \<in> set (fst (get_device_info env addr)) \<and>
        Disconnect addr \<in> set (fst (get_device_info env addr)))
   \<and> (connect_outcome env (address d) = Inr c' \<longrightarrow>
        connections_closed None (fst (process_device env d)) \<and>
        Connect (address d) \<in> set (fst (process_device env d)) \<and>
        Disconnect (address d) \<in> set (fst (process_device env d)))"
proof (intro conjI impI)
  show "connections_closed None (fst (get_device_info env addr))"
    by (rule closed_get_device_info)
  show "connections_closed None (fst (scan_and_disconnect_devices env))"
    by (rule closed_scan_and_disconnect)
  show "connections_closed None (fst (main counts env argv))"
    by (rule closed_main)
next
  assume "Connect a \<in> set (fst (get_device_info env addr))"
  then show "Disconnect a \<in> set (fst (get_device_info env addr))"
    using connections_closed_Connect [OF closed_get_device_info] by blast
next
  assume "Connect a \<in> set (fst (scan_and_disconnect_devices env))"
  then show "Disconnect a \<in> set (fst (scan_and_disconnect_devices env))"
    using connections_closed_Connect [OF closed_scan_and_disconnect] by blast
next
  assume h: "scan_fault env = None \<and> fst (find_device addr (advertisements env 10)) = Some dev \<and>
        connect_outcome env addr = Inr c"
  then show c: "Connect addr \<in> set (fst (get_device_info env addr))"
    using Connect_in_get_device_info by blast
  then show "Disconnect addr \<in> set (fst (get_device_info env addr))"
    using connections_closed_Connect [OF closed_get_device_info] by blast
next
  assume h: "connect_outcome env (address d) = Inr c'"
  show "connections_closed None (fst (process_device env d))"
    by (rule closed_process_device)
  show c: "Connect (address d) \<in> set (fst (process_device env d))"
    using h by (rule Connect_in_process_device)
  then show "Disconnect (address d) \<in> set (fst (process_device env d))"
    using connections_closed_Connect [OF closed_process_device] by blast
qed

text \<open>
  A device whose services cannot be read is connected to and disconnected from, in the
  pass over all devices; so is a device that accepts, in the detail mode.
\<close>

theorem connections_always_closed_witness:
  "connect_outcome working_radio (address faulty_device) = Inr faulty_client
   \<and> services faulty_client = Inl (Exception ''Service Discovery failed'')
   \<and> Connect ''AA:BB:CC:DD:EE:03'' \<in> set (fst (process_device working_radio faulty_device))
   \<and> Disconnect ''AA:BB:CC:DD:EE:03'' \<in> set (fst (process_device working_radio faulty_device))
   \<and> Connect ''AA:BB:CC:DD:EE:03'' \<in> set (fst (scan_and_disconnect_devices working_radio))
   \<and> Disconnect ''AA:BB:CC:DD:EE:03'' \<in> set (fst (scan_and_disconnect_devices working_radio))
   \<and> scan_fault working_radio = None
   \<and> fst (find_device ''AA:BB:CC:DD:EE:02'' (advertisements working_radio 10)) = Some accepting_device
   \<and> connect_outcome working_radio ''AA:BB:CC:DD:EE:02'' = Inr accepting_client
   \<and> Connect ''AA:BB:CC:DD:EE:02'' \<in> set (fst (get_device_info working_radio ''AA:BB:CC:DD:EE:02''))
   \<and> Disconnect ''AA:BB:CC:DD:EE:02'' \<in> set (fst (get_device_info working_radio ''AA:BB:CC:DD:EE:02''))"
proof -
  have a3: "address faulty_device = ''AA:BB:CC:DD:EE:03''"
    by (simp add: faulty_device_def)
  have h1: "connect_outcome working_radio (address faulty_device) = Inr faulty_client"
    by (simp add: working_radio_def faulty_device_def)
  have h2: "services faulty_client = Inl (Exception ''Service Discovery failed'')"
    by (simp add: faulty_client_def)
  have h3: "fst (find_device ''AA:BB:CC:DD:EE:02'' (advertisements working_radio 10)) = Some accepting_device"
    by (simp add: find_device_def working_radio_def get_device_info_detection_callback_def
          refusing_device_def accepting_device_def py_lower_def lower_char_def)
  have h4: "connect_outcome working_radio ''AA:BB:CC:DD:EE:02'' = Inr accepting_client"
    by (simp add: working_radio_def)
  note t = connections_always_closed
    [of working_radio "''AA:BB:CC:DD:EE:02''" counts_always "[]" "''AA:BB:CC:DD:EE:03''"
        accepting_device accepting_client faulty_device faulty_client]
  have r1: "Connect ''AA:BB:CC:DD:EE:03'' \<in> set (fst (process_device working_radio faulty_device))"
    and r2: "Disconnect ''AA:BB:CC:DD:EE:03'' \<in> set (fst (process_device working_radio faulty_device))"
    using t h1 a3 by simp_all
  have d: "discover_outcome working_radio = Inr [refusing_device, faulty_device, accepting_device]"
    by (simp add: working_radio_def)
  have p1: "process_device working_radio refusing_device =
        ([Print (''Device: '' @ py_or (name refusing_device) ''Unknown'' @ '' ('' @
            address refusing_device @ '')''),
          Print (''  '' @ cross_mark @
            '' Skipping (device not available or cannot connect): '' @ ''Connection refused''),
          Print ''''], None)"
    by (rule process_device_refused) (simp add: working_radio_def refusing_device_def)
  have r3: "Connect ''AA:BB:CC:DD:EE:03'' \<in> set (fst (scan_and_disconnect_devices working_radio))"
    using r1 by (simp add: scan_and_disconnect_devices_def d fst_then_do p1)
  have r4: "Disconnect ''AA:BB:CC:DD:EE:03'' \<in> set (fst (scan_and_disconnect_devices working_radio))"
    using t r3 by blast
  have r5: "Connect ''AA:BB:CC:DD:EE:02'' \<in> set (fst (get_device_info working_radio ''AA:BB:CC:DD:EE:02''))"
    and r6: "Disconnect ''AA:BB:CC:DD:EE:02'' \<in> set (fst (get_device_info working_radio ''AA:BB:CC:DD:EE:02''))"
    using t h3 h4 scan_fault_working_radio by simp_all
  show ?thesis
    by (intro conjI) (rule h1 h2 r1 r2 r3 r4 scan_fault_working_radio h3 h4 r5 r6)+
qed

end
